theory Spec2Isabelle
  imports Main
begin

section \<open>usbreset.c: the operating system as the program sees it\<close>

text \<open>
  The program is one \<^verbatim>\<open>main\<close> that calls \<^verbatim>\<open>open\<close>, \<^verbatim>\<open>ioctl\<close>, \<^verbatim>\<open>close\<close>,
  \<^verbatim>\<open>strerror\<close>, reads \<^verbatim>\<open>errno\<close> and prints. None of these is code of the repository, so
  they are parameters of the model: a record of functions over an arbitrary state \<open>'k\<close> of
  the kernel and the C library (which holds \<^verbatim>\<open>errno\<close>). A system call takes the state,
  returns its C return value and the state after the call. Nothing is assumed about them:
  a call may fail or succeed and may leave any value in \<^verbatim>\<open>errno\<close>.
\<close>

datatype open_flags = O_RDONLY | O_WRONLY | O_RDWR

record 'k os =
  os_open :: "string \<Rightarrow> open_flags \<Rightarrow> 'k \<Rightarrow> int \<times> 'k"
  os_ioctl :: "int \<Rightarrow> int \<Rightarrow> int \<Rightarrow> 'k \<Rightarrow> int \<times> 'k"
  os_close :: "int \<Rightarrow> 'k \<Rightarrow> int \<times> 'k"
  os_errno :: "'k \<Rightarrow> int"
  os_strerror :: "int \<Rightarrow> string"

text \<open>
  What a run does is recorded in order: every system call with its arguments and its return
  value, and every text printed, with the stream it went to (one event for each call of
  \<^verbatim>\<open>printf\<close> or \<^verbatim>\<open>fprintf\<close>).
\<close>

datatype stream = Stdout | Stderr

datatype event =
    Open string open_flags int
  | Ioctl int int int int
  | Close int int
  | Write stream string

record 'k world =
  kstate :: 'k
  trace :: "event list"

definition start :: "'k \<Rightarrow> 'k world" where
  "start k = \<lparr>kstate = k, trace = []\<rparr>"

definition call_open :: "'k os \<Rightarrow> string \<Rightarrow> open_flags \<Rightarrow> 'k world \<Rightarrow> int \<times> 'k world" where
  "call_open os path flags w =
     (case os_open os path flags (kstate w) of
        (fd, k') \<Rightarrow> (fd, \<lparr>kstate = k', trace = trace w @ [Open path flags fd]\<rparr>))"

definition call_ioctl :: "'k os \<Rightarrow> int \<Rightarrow> int \<Rightarrow> int \<Rightarrow> 'k world \<Rightarrow> int \<times> 'k world" where
  "call_ioctl os fd request arg w =
     (case os_ioctl os fd request arg (kstate w) of
        (r, k') \<Rightarrow> (r, \<lparr>kstate = k', trace = trace w @ [Ioctl fd request arg r]\<rparr>))"

definition call_close :: "'k os \<Rightarrow> int \<Rightarrow> 'k world \<Rightarrow> int \<times> 'k world" where
  "call_close os fd w =
     (case os_close os fd (kstate w) of
        (r, k') \<Rightarrow> (r, \<lparr>kstate = k', trace = trace w @ [Close fd r]\<rparr>))"

definition fprintf :: "stream \<Rightarrow> string \<Rightarrow> 'k world \<Rightarrow> 'k world" where
  "fprintf st text w = w\<lparr>trace := trace w @ [Write st text]\<rparr>"

definition errno :: "'k os \<Rightarrow> 'k world \<Rightarrow> int" where
  "errno os w = os_errno os (kstate w)"

section \<open>The program\<close>

text \<open>
  Lines 1 to 6 include six headers, and no other. A platform is what its headers define:
  for a header name and a macro name, the value of the macro if that header makes it
  visible. The macros a translation unit holds after its includes are those of the headers
  it names, the first definition found standing.
\<close>

type_synonym platform = "string \<Rightarrow> string \<Rightarrow> int option"

definition included_headers :: "string list" where
  "included_headers =
     [''stdio.h'', ''fcntl.h'', ''sys/ioctl.h'', ''unistd.h'', ''errno.h'', ''string.h'']"

fun visible_macro :: "platform \<Rightarrow> string list \<Rightarrow> string \<Rightarrow> int option" where
  "visible_macro p [] name = None"
| "visible_macro p (header # headers) name =
     (case p header name of Some c \<Rightarrow> Some c | None \<Rightarrow> visible_macro p headers name)"

text \<open>
  \<^verbatim>\<open>#ifndef USBDEVFS_RESET\<close> / \<^verbatim>\<open>#define USBDEVFS_RESET 21780\<close> / \<^verbatim>\<open>#endif\<close>. The argument
  is what the translation unit holds for the macro when it reaches the guard at line 9:
  \<open>Some c\<close> when it is defined there, \<open>None\<close> when it is not. That is not the same as the
  platform having the constant: a platform header that the file does not include defines
  nothing here. The value is handed to \<^verbatim>\<open>ioctl\<close> as it stands; converting it to the type of
  the prototype's parameter is left to \<open>os_ioctl\<close>.
\<close>

definition USBDEVFS_RESET :: "int option \<Rightarrow> int" where
  "USBDEVFS_RESET platform = (case platform of Some c \<Rightarrow> c | None \<Rightarrow> 21780)"

text \<open>The three format strings with their \<^verbatim>\<open>%s\<close> filled in; each ends in \<^verbatim>\<open>\n\<close>.\<close>

definition usage_msg :: "string \<Rightarrow> string" where
  "usage_msg prog = ''Usage: '' @ prog @ '' <usb_device_path>'' @ [CHR 0x0A]"

definition open_error_msg :: "string \<Rightarrow> string \<Rightarrow> string" where
  "open_error_msg device_path description =
     ''Error opening device '' @ device_path @ '': '' @ description @ [CHR 0x0A]"

definition reset_error_msg :: "string \<Rightarrow> string \<Rightarrow> string" where
  "reset_error_msg device_path description =
     ''Error resetting device '' @ device_path @ '': '' @ description @ [CHR 0x0A]"

definition success_msg :: "string \<Rightarrow> string" where
  "success_msg device_path = ''USB device '' @ device_path @ '' reset successfully'' @ [CHR 0x0A]"

text \<open>
  \<^verbatim>\<open>main\<close>. The C runtime passes \<open>argc\<close> as the number of strings of \<open>argv\<close>, so the model
  takes \<open>argv\<close> alone. With an empty \<open>argv\<close> (\<open>argc = 0\<close>) the usage branch passes the null
  pointer \<open>argv[0]\<close> to \<^verbatim>\<open>%s\<close>, which C leaves undefined: the model returns \<open>None\<close> there.
  Otherwise the result is the exit status and the world after the run.
\<close>

definition main :: "int option \<Rightarrow> 'k os \<Rightarrow> string list \<Rightarrow> 'k world \<Rightarrow> (int \<times> 'k world) option" where
  "main platform os argv w =
     (let argc = int (length argv) in
      if argc \<noteq> 2 then
        (case argv of
           [] \<Rightarrow> None
         | prog # _ \<Rightarrow> Some (1, fprintf Stderr (usage_msg prog) w))
      else
        let device_path = argv ! 1 in
        case call_open os device_path O_WRONLY w of (fd, w1) \<Rightarrow>
        if fd < 0 then
          Some (1, fprintf Stderr (open_error_msg device_path (os_strerror os (errno os w1))) w1)
        else
          case call_ioctl os fd (USBDEVFS_RESET platform) 0 w1 of (result, w2) \<Rightarrow>
          case call_close os fd w2 of (_, w3) \<Rightarrow>
          if result < 0 then
            Some (1, fprintf Stderr (reset_error_msg device_path (os_strerror os (errno os w3))) w3)
          else
            Some (0, fprintf Stdout (success_msg device_path) w3))"

text \<open>
  The program as the file builds it on a platform: \<^verbatim>\<open>main\<close> with the macro as the six
  included headers leave it.
\<close>

definition usbreset :: "platform \<Rightarrow> 'k os \<Rightarrow> string list \<Rightarrow> 'k world \<Rightarrow> (int \<times> 'k world) option" where
  "usbreset p os argv w = main (visible_macro p included_headers ''USBDEVFS_RESET'') os argv w"

section \<open>Reading a trace\<close>

text \<open>The texts printed to one stream, one per print call, in order.\<close>

fun writes :: "stream \<Rightarrow> event list \<Rightarrow> string list" where
  "writes st [] = []"
| "writes st (Write st' text # es) = (if st' = st then text # writes st es else writes st es)"
| "writes st (_ # es) = writes st es"

text \<open>The paths opened with their flags, and the handles closed.\<close>

fun opens :: "event list \<Rightarrow> (string \<times> open_flags) list" where
  "opens [] = []"
| "opens (Open path flags _ # es) = (path, flags) # opens es"
| "opens (_ # es) = opens es"

fun closes :: "event list \<Rightarrow> int list" where
  "closes [] = []"
| "closes (Close fd _ # es) = fd # closes es"
| "closes (_ # es) = closes es"

section \<open>A concrete operating system\<close>

text \<open>
  An operating system to run the program on, with Linux's error numbers (ENOENT 2, EIO 5,
  ENODEV 19, ENOTTY 25); its state is the value of \<^verbatim>\<open>errno\<close>. Four paths:
  \<^verbatim>\<open>/dev/bus/usb/001/002\<close> opens as handle 3 and resets; \<^verbatim>\<open>/dev/bus/usb/001/003\<close> opens as
  handle 4 and its reset fails with ENODEV; \<^verbatim>\<open>/mnt/fuse/node\<close> is a file of a user-space
  file system that opens as handle 5, refuses the request with ENOTTY and fails to close
  with EIO; every other path does not exist.
\<close>

definition demo_strerror :: "int \<Rightarrow> string" where
  "demo_strerror e =
     (if e = 2 then ''No such file or directory''
      else if e = 5 then ''Input/output error''
      else if e = 19 then ''No such device''
      else if e = 25 then ''Inappropriate ioctl for device''
      else ''Unknown error'')"

definition demo_os :: "int os" where
  "demo_os = \<lparr>
     os_open = (\<lambda>path flags e.
       if path = ''/dev/bus/usb/001/002'' then (3, e)
       else if path = ''/dev/bus/usb/001/003'' then (4, e)
       else if path = ''/mnt/fuse/node'' then (5, e)
       else (- 1, 2)),
     os_ioctl = (\<lambda>fd request arg e.
       if fd = 3 \<and> request = 21780 then (0, e)
       else if fd = 4 \<and> request = 21780 then (- 1, 19)
       else (- 1, 25)),
     os_close = (\<lambda>fd e. if fd = 5 then (- 1, 5) else (0, e)),
     os_errno = (\<lambda>e. e),
     os_strerror = demo_strerror\<rparr>"

text \<open>The same system with a \<^verbatim>\<open>close\<close> that always succeeds and leaves \<^verbatim>\<open>errno\<close> alone.\<close>

definition demo_os_good_close :: "int os" where
  "demo_os_good_close = demo_os\<lparr>os_close := (\<lambda>fd e. (0, e))\<rparr>"

text \<open>
  Linux on powerpc, as far as this macro goes. The request codes of that architecture carry
  the direction in the top three bits, so \<^verbatim>\<open>linux/usbdevice_fs.h\<close> defines
  \<^verbatim>\<open>USBDEVFS_RESET\<close>, which is \<^verbatim>\<open>_IO('U', 20)\<close>, as \<^verbatim>\<open>0x20005514\<close> = 536892692; no other
  header defines it. Its kernel resets handle 3 on that code and answers ENOTTY to any
  other request.
\<close>

definition linux_powerpc :: platform where
  "linux_powerpc = (\<lambda>header name.
     if header = ''linux/usbdevice_fs.h'' \<and> name = ''USBDEVFS_RESET'' then Some 536892692
     else None)"

definition demo_os_powerpc :: "int os" where
  "demo_os_powerpc = demo_os\<lparr>os_ioctl := (\<lambda>fd request arg e.
     if fd = 3 \<and> request = 536892692 then (0, e) else (- 1, 25))\<rparr>"

section \<open>The four runs of the program\<close>

lemma main_usage:
  "length args \<noteq> 1 \<Longrightarrow>
   main platform os (prog # args) w = Some (1, fprintf Stderr (usage_msg prog) w)"
  by (simp add: main_def)

lemma main_open_failed:
  assumes "os_open os path O_WRONLY (kstate w) = (fd, k1)" and "fd < 0"
  shows "main platform os [prog, path] w =
         Some (1, \<lparr>kstate = k1,
                   trace = trace w @ [Open path O_WRONLY fd,
                     Write Stderr (open_error_msg path (os_strerror os (os_errno os k1)))]\<rparr>)"
  using assms by (simp add: main_def call_open_def fprintf_def errno_def)

lemma main_opened:
  assumes "os_open os path O_WRONLY (kstate w) = (fd, k1)" and "0 \<le> fd"
    and "os_ioctl os fd (USBDEVFS_RESET platform) 0 k1 = (result, k2)"
    and "os_close os fd k2 = (c, k3)"
  shows "main platform os [prog, path] w =
         Some (if result < 0 then 1 else 0,
               \<lparr>kstate = k3,
                trace = trace w @ [Open path O_WRONLY fd,
                  Ioctl fd (USBDEVFS_RESET platform) 0 result,
                  Close fd c,
                  if result < 0
                  then Write Stderr (reset_error_msg path (os_strerror os (os_errno os k3)))
                  else Write Stdout (success_msg path)]\<rparr>)"
  using assms
  by (simp add: main_def call_open_def call_ioctl_def call_close_def fprintf_def errno_def)

text \<open>The same two runs from the start of the process, where nothing has been recorded yet.\<close>

lemma main_open_failed_start:
  assumes "os_open os path O_WRONLY k = (fd, k1)" and "fd < 0"
  shows "main platform os [prog, path] (start k) =
         Some (1, \<lparr>kstate = k1,
                   trace = [Open path O_WRONLY fd,
                     Write Stderr (open_error_msg path (os_strerror os (os_errno os k1)))]\<rparr>)"
  using main_open_failed [of os path "start k" fd k1 platform prog] assms
  by (simp add: start_def)

lemma main_opened_start:
  assumes "os_open os path O_WRONLY k = (fd, k1)" and "0 \<le> fd"
    and "os_ioctl os fd (USBDEVFS_RESET platform) 0 k1 = (result, k2)"
    and "os_close os fd k2 = (c, k3)"
  shows "main platform os [prog, path] (start k) =
         Some (if result < 0 then 1 else 0,
               \<lparr>kstate = k3,
                trace = [Open path O_WRONLY fd,
                  Ioctl fd (USBDEVFS_RESET platform) 0 result,
                  Close fd c,
                  if result < 0
                  then Write Stderr (reset_error_msg path (os_strerror os (os_errno os k3)))
                  else Write Stdout (success_msg path)]\<rparr>)"
  using main_opened [of os path "start k" fd k1 platform result k2 c k3 prog] assms
  by (simp add: start_def)

lemma argv_two: "length argv = 2 \<Longrightarrow> \<exists>prog path. argv = [prog, path]"
  by (cases argv; cases "tl argv") auto

lemma demo_simps:
  "os_open demo_os = (\<lambda>path flags e.
       if path = ''/dev/bus/usb/001/002'' then (3, e)
       else if path = ''/dev/bus/usb/001/003'' then (4, e)
       else if path = ''/mnt/fuse/node'' then (5, e)
       else (- 1, 2))"
  "os_ioctl demo_os = (\<lambda>fd request arg e.
       if fd = 3 \<and> request = 21780 then (0, e)
       else if fd = 4 \<and> request = 21780 then (- 1, 19)
       else (- 1, 25))"
  "os_close demo_os = (\<lambda>fd e. if fd = 5 then (- 1, 5) else (0, e))"
  "os_errno demo_os = (\<lambda>e. e)"
  "os_strerror demo_os = demo_strerror"
  by (simp_all add: demo_os_def)

section \<open>The success path\<close>

text \<open>
  C1. When the path opens (the handle returned is not negative) and the reset request
  succeeds (its result is not negative), the program exits with status 0, prints to standard
  output exactly one text, the line \<^verbatim>\<open>USB device <path> reset successfully\<close> ended by a
  newline, with the device path as it was given, and prints nothing to the error stream.
  This holds for every operating system, every starting state and both settings of the
  platform macro, whatever \<^verbatim>\<open>close\<close> does.
\<close>

theorem success_path:
  assumes "os_open os path O_WRONLY k = (fd, k1)" and "0 \<le> fd"
    and "os_ioctl os fd (USBDEVFS_RESET platform) 0 k1 = (result, k2)" and "0 \<le> result"
  shows "\<exists>w'. main platform os [prog, path] (start k) = Some (0, w')
           \<and> writes Stdout (trace w') =
               [''USB device '' @ path @ '' reset successfully'' @ [CHR 0x0A]]
           \<and> writes Stderr (trace w') = []"
proof -
  obtain c k3 where cl: "os_close os fd k2 = (c, k3)"
    by (cases "os_close os fd k2")
  from main_opened_start [OF assms(1) assms(2) assms(3) cl, of prog] assms(4)
  show ?thesis by (simp add: success_msg_def)
qed

theorem success_path_witness:
  "os_open demo_os ''/dev/bus/usb/001/002'' O_WRONLY 0 = (3, 0)
   \<and> os_ioctl demo_os 3 (USBDEVFS_RESET None) 0 0 = (0, 0)
   \<and> (\<exists>w'. main None demo_os [''usbreset'', ''/dev/bus/usb/001/002''] (start 0) = Some (0, w')
         \<and> writes Stdout (trace w') =
             [''USB device /dev/bus/usb/001/002 reset successfully'' @ [CHR 0x0A]]
         \<and> writes Stderr (trace w') = [])"
proof -
  have a: "os_open demo_os ''/dev/bus/usb/001/002'' O_WRONLY 0 = (3, 0)"
    by (simp add: demo_simps)
  have b: "os_ioctl demo_os 3 (USBDEVFS_RESET None) 0 0 = (0, 0)"
    by (simp add: demo_simps USBDEVFS_RESET_def)
  from success_path [OF a _ b, of "''usbreset''"] a b show ?thesis by simp
qed

section \<open>Wrong number of arguments\<close>

text \<open>
  C2. When the command is followed by no argument, or by two or more, the program prints
  the usage message, which names the command as it was invoked and the expected
  \<^verbatim>\<open><usb_device_path>\<close>, to the error stream and exits with status 1. The record of the run
  holds that one print and nothing else: no \<^verbatim>\<open>open\<close>, no reset request, and the state of
  the operating system is the one the process started with.
\<close>

theorem wrong_argument_count:
  assumes "length args \<noteq> 1"
  shows "main platform os (prog # args) (start k) =
         Some (1, \<lparr>kstate = k,
                   trace = [Write Stderr
                     (''Usage: '' @ prog @ '' <usb_device_path>'' @ [CHR 0x0A])]\<rparr>)"
  using main_usage [OF assms, of platform os prog "start k"]
  by (simp add: fprintf_def start_def usage_msg_def)

theorem wrong_argument_count_witness:
  "length ([] :: string list) \<noteq> 1
   \<and> main None demo_os [''usbreset''] (start 0) =
       Some (1, \<lparr>kstate = 0,
                 trace = [Write Stderr (''Usage: usbreset <usb_device_path>'' @ [CHR 0x0A])]\<rparr>)
   \<and> length [''/dev/bus/usb/001/002'', ''now''] \<noteq> 1
   \<and> main None demo_os [''usbreset'', ''/dev/bus/usb/001/002'', ''now''] (start 0) =
       Some (1, \<lparr>kstate = 0,
                 trace = [Write Stderr (''Usage: usbreset <usb_device_path>'' @ [CHR 0x0A])]\<rparr>)"
  using wrong_argument_count [of "[]" None demo_os "''usbreset''" 0]
    wrong_argument_count [of "[''/dev/bus/usb/001/002'', ''now'']" None demo_os "''usbreset''" 0]
  by simp

section \<open>The path does not open\<close>

text \<open>
  C3. With exactly one argument, when \<^verbatim>\<open>open\<close> fails (returns a negative value), the
  program exits with status 1 and the record of the run is the \<^verbatim>\<open>open\<close> followed by one
  print to the error stream: \<^verbatim>\<open>Error opening device <path>: <description>\<close> and a newline,
  where the description is \<^verbatim>\<open>strerror\<close> of the \<^verbatim>\<open>errno\<close> that \<^verbatim>\<open>open\<close> left. No reset
  request is issued and nothing is closed.
\<close>

theorem open_failure:
  assumes "os_open os path O_WRONLY k = (fd, k1)" and "fd < 0"
  shows "main platform os [prog, path] (start k) =
         Some (1, \<lparr>kstate = k1,
                   trace = [Open path O_WRONLY fd,
                     Write Stderr (''Error opening device '' @ path @ '': ''
                       @ os_strerror os (os_errno os k1) @ [CHR 0x0A])]\<rparr>)"
  using main_open_failed_start [OF assms, of platform prog]
  by (simp add: open_error_msg_def)

theorem open_failure_witness:
  "os_open demo_os ''/dev/bus/usb/999/999'' O_WRONLY 0 = (- 1, 2)
   \<and> main None demo_os [''usbreset'', ''/dev/bus/usb/999/999''] (start 0) =
       Some (1, \<lparr>kstate = 2,
                 trace = [Open ''/dev/bus/usb/999/999'' O_WRONLY (- 1),
                   Write Stderr (''Error opening device /dev/bus/usb/999/999: No such file or directory''
                     @ [CHR 0x0A])]\<rparr>)"
proof -
  have a: "os_open demo_os ''/dev/bus/usb/999/999'' O_WRONLY 0 = (- 1, 2)"
    by (simp add: demo_simps)
  from open_failure [OF a, of None "''usbreset''"] a show ?thesis
    by (simp add: demo_simps demo_strerror_def)
qed

section \<open>The handle is released\<close>

text \<open>
  C4. On every run where \<^verbatim>\<open>open\<close> succeeds, the program returns and the handles it closed
  are exactly one: the handle \<^verbatim>\<open>open\<close> returned. The result of the reset request is not
  constrained, so this covers the run where the reset succeeds and the run where it fails.
\<close>

theorem handle_closed_once:
  assumes "os_open os path O_WRONLY k = (fd, k1)" and "0 \<le> fd"
  shows "\<exists>status w'. main platform os [prog, path] (start k) = Some (status, w')
           \<and> closes (trace w') = [fd]"
proof -
  obtain result k2 where io: "os_ioctl os fd (USBDEVFS_RESET platform) 0 k1 = (result, k2)"
    by (cases "os_ioctl os fd (USBDEVFS_RESET platform) 0 k1")
  obtain c k3 where cl: "os_close os fd k2 = (c, k3)"
    by (cases "os_close os fd k2")
  show ?thesis
    using main_opened_start [OF assms io cl, of prog] by simp
qed

theorem handle_closed_once_witness:
  "os_open demo_os ''/dev/bus/usb/001/002'' O_WRONLY 0 = (3, 0)
   \<and> (\<exists>status w'. main None demo_os [''usbreset'', ''/dev/bus/usb/001/002''] (start 0)
           = Some (status, w') \<and> closes (trace w') = [3])
   \<and> os_open demo_os ''/dev/bus/usb/001/003'' O_WRONLY 0 = (4, 0)
   \<and> (\<exists>status w'. main None demo_os [''usbreset'', ''/dev/bus/usb/001/003''] (start 0)
           = Some (status, w') \<and> closes (trace w') = [4])"
proof -
  have a: "os_open demo_os ''/dev/bus/usb/001/002'' O_WRONLY 0 = (3, 0)"
    and b: "os_open demo_os ''/dev/bus/usb/001/003'' O_WRONLY 0 = (4, 0)"
    by (simp_all add: demo_simps)
  from handle_closed_once [OF a, of None "''usbreset''"]
    handle_closed_once [OF b, of None "''usbreset''"] a b
  show ?thesis by simp
qed

section \<open>The reset request fails\<close>

text \<open>
  C5. When the path opens and the reset request fails, the error line is to carry the
  description of the error of the failed reset request. The program reads \<^verbatim>\<open>errno\<close> only
  after \<^verbatim>\<open>close\<close> has run, so it prints the description of whatever \<^verbatim>\<open>close\<close> left there.
  On the run below the reset request fails with ENOTTY (25, \<^verbatim>\<open>Inappropriate ioctl for device\<close>),
  \<^verbatim>\<open>close\<close> then fails with EIO (5), and the line printed says \<^verbatim>\<open>Input/output error\<close>: the
  description of the failed \<^verbatim>\<open>close\<close>, not of the failed reset. The rest of the claim holds
  on this run: status 1, nothing on standard output, the handle closed.
\<close>

theorem reset_error_reports_errno_of_close:
  "os_open demo_os ''/mnt/fuse/node'' O_WRONLY 0 = (5, 0)
   \<and> os_ioctl demo_os 5 (USBDEVFS_RESET None) 0 0 = (- 1, 25)
   \<and> os_strerror demo_os 25 = ''Inappropriate ioctl for device''
   \<and> os_close demo_os 5 25 = (- 1, 5)
   \<and> main None demo_os [''usbreset'', ''/mnt/fuse/node''] (start 0) =
       Some (1, \<lparr>kstate = 5,
                 trace = [Open ''/mnt/fuse/node'' O_WRONLY 5,
                   Ioctl 5 21780 0 (- 1),
                   Close 5 (- 1),
                   Write Stderr (''Error resetting device /mnt/fuse/node: Input/output error''
                     @ [CHR 0x0A])]\<rparr>)"
proof -
  have a: "os_open demo_os ''/mnt/fuse/node'' O_WRONLY 0 = (5, 0)"
    and b: "os_ioctl demo_os 5 (USBDEVFS_RESET None) 0 0 = (- 1, 25)"
    and c: "os_close demo_os 5 25 = (- 1, 5)"
    and d: "os_strerror demo_os 25 = ''Inappropriate ioctl for device''"
    by (simp_all add: demo_simps USBDEVFS_RESET_def demo_strerror_def)
  from main_opened_start [OF a _ b c, of "''usbreset''"] a b c d
  show ?thesis
    by (simp add: demo_simps demo_strerror_def reset_error_msg_def USBDEVFS_RESET_def)
qed

text \<open>
  What the reset-failure run does whatever \<^verbatim>\<open>close\<close> leaves in \<^verbatim>\<open>errno\<close>: status 1, nothing
  on standard output, one print to the error stream that starts
  \<^verbatim>\<open>Error resetting device <path>: \<close> and ends in a newline, and the handle closed once.
\<close>

theorem reset_failure_path:
  assumes "os_open os path O_WRONLY k = (fd, k1)" and "0 \<le> fd"
    and "os_ioctl os fd (USBDEVFS_RESET platform) 0 k1 = (result, k2)" and "result < 0"
  shows "\<exists>w' description. main platform os [prog, path] (start k) = Some (1, w')
           \<and> writes Stdout (trace w') = []
           \<and> writes Stderr (trace w') =
               [''Error resetting device '' @ path @ '': '' @ description @ [CHR 0x0A]]
           \<and> closes (trace w') = [fd]"
proof -
  obtain c k3 where cl: "os_close os fd k2 = (c, k3)"
    by (cases "os_close os fd k2")
  from main_opened_start [OF assms(1) assms(2) assms(3) cl, of prog] assms(4)
  show ?thesis by (simp add: reset_error_msg_def)
qed

theorem reset_failure_path_witness:
  "os_open demo_os ''/dev/bus/usb/001/003'' O_WRONLY 0 = (4, 0)
   \<and> os_ioctl demo_os 4 (USBDEVFS_RESET None) 0 0 = (- 1, 19)
   \<and> (\<exists>w' description. main None demo_os [''usbreset'', ''/dev/bus/usb/001/003''] (start 0) = Some (1, w')
         \<and> writes Stdout (trace w') = []
         \<and> writes Stderr (trace w') =
             [''Error resetting device /dev/bus/usb/001/003: '' @ description @ [CHR 0x0A]]
         \<and> closes (trace w') = [4])"
proof -
  have a: "os_open demo_os ''/dev/bus/usb/001/003'' O_WRONLY 0 = (4, 0)"
    by (simp add: demo_simps)
  have b: "os_ioctl demo_os 4 (USBDEVFS_RESET None) 0 0 = (- 1, 19)"
    by (simp add: demo_simps USBDEVFS_RESET_def)
  from reset_failure_path [OF a _ b, of "''usbreset''"] a b show ?thesis by simp
qed

section \<open>Exit status\<close>

text \<open>
  C6. The exit status is 1 when the number of arguments is wrong, 1 when \<^verbatim>\<open>open\<close> fails,
  1 when the reset request fails, and 0 when both succeed. The four cases cover every run
  that has a command name, so the status is never anything else and the three causes of
  failure share the one code.
\<close>

theorem exit_status:
  "(length args \<noteq> 1 \<longrightarrow>
      (\<exists>w'. main platform os (prog # args) (start k) = Some (1, w')))
   \<and> (os_open os path O_WRONLY k = (fd, k1) \<and> fd < 0 \<longrightarrow>
      (\<exists>w'. main platform os [prog, path] (start k) = Some (1, w')))
   \<and> (os_open os path O_WRONLY k = (fd, k1) \<and> 0 \<le> fd
        \<and> os_ioctl os fd (USBDEVFS_RESET platform) 0 k1 = (result, k2) \<and> result < 0 \<longrightarrow>
      (\<exists>w'. main platform os [prog, path] (start k) = Some (1, w')))
   \<and> (os_open os path O_WRONLY k = (fd, k1) \<and> 0 \<le> fd
        \<and> os_ioctl os fd (USBDEVFS_RESET platform) 0 k1 = (result, k2) \<and> 0 \<le> result \<longrightarrow>
      (\<exists>w'. main platform os [prog, path] (start k) = Some (0, w')))"
proof (intro conjI impI)
  assume "length args \<noteq> 1"
  from main_usage [OF this, of platform os prog "start k"]
  show "\<exists>w'. main platform os (prog # args) (start k) = Some (1, w')" by simp
next
  assume "os_open os path O_WRONLY k = (fd, k1) \<and> fd < 0"
  then have op: "os_open os path O_WRONLY k = (fd, k1)" and neg: "fd < 0" by simp_all
  from main_open_failed_start [OF op neg, of platform prog]
  show "\<exists>w'. main platform os [prog, path] (start k) = Some (1, w')" by simp
next
  assume "os_open os path O_WRONLY k = (fd, k1) \<and> 0 \<le> fd
    \<and> os_ioctl os fd (USBDEVFS_RESET platform) 0 k1 = (result, k2) \<and> result < 0"
  then have op: "os_open os path O_WRONLY k = (fd, k1)" and nonneg: "0 \<le> fd"
    and io: "os_ioctl os fd (USBDEVFS_RESET platform) 0 k1 = (result, k2)"
    and failed: "result < 0" by simp_all
  obtain c k3 where cl: "os_close os fd k2 = (c, k3)"
    by (cases "os_close os fd k2")
  from main_opened_start [OF op nonneg io cl, of prog] failed
  show "\<exists>w'. main platform os [prog, path] (start k) = Some (1, w')" by simp
next
  assume "os_open os path O_WRONLY k = (fd, k1) \<and> 0 \<le> fd
    \<and> os_ioctl os fd (USBDEVFS_RESET platform) 0 k1 = (result, k2) \<and> 0 \<le> result"
  then have op: "os_open os path O_WRONLY k = (fd, k1)" and nonneg: "0 \<le> fd"
    and io: "os_ioctl os fd (USBDEVFS_RESET platform) 0 k1 = (result, k2)"
    and ok: "0 \<le> result" by simp_all
  obtain c k3 where cl: "os_close os fd k2 = (c, k3)"
    by (cases "os_close os fd k2")
  from main_opened_start [OF op nonneg io cl, of prog] ok
  show "\<exists>w'. main platform os [prog, path] (start k) = Some (0, w')" by simp
qed

theorem exit_status_witness:
  "(\<exists>w'. main None demo_os [''usbreset''] (start 0) = Some (1, w'))
   \<and> os_open demo_os ''/dev/bus/usb/999/999'' O_WRONLY 0 = (- 1, 2)
   \<and> (\<exists>w'. main None demo_os [''usbreset'', ''/dev/bus/usb/999/999''] (start 0) = Some (1, w'))
   \<and> os_open demo_os ''/dev/bus/usb/001/003'' O_WRONLY 0 = (4, 0)
   \<and> os_ioctl demo_os 4 (USBDEVFS_RESET None) 0 0 = (- 1, 19)
   \<and> (\<exists>w'. main None demo_os [''usbreset'', ''/dev/bus/usb/001/003''] (start 0) = Some (1, w'))
   \<and> os_open demo_os ''/dev/bus/usb/001/002'' O_WRONLY 0 = (3, 0)
   \<and> os_ioctl demo_os 3 (USBDEVFS_RESET None) 0 0 = (0, 0)
   \<and> (\<exists>w'. main None demo_os [''usbreset'', ''/dev/bus/usb/001/002''] (start 0) = Some (0, w'))"
proof -
  have op: "os_open demo_os ''/dev/bus/usb/999/999'' O_WRONLY 0 = (- 1, 2)"
    "os_open demo_os ''/dev/bus/usb/001/003'' O_WRONLY 0 = (4, 0)"
    "os_open demo_os ''/dev/bus/usb/001/002'' O_WRONLY 0 = (3, 0)"
    by (simp_all add: demo_simps)
  have io: "os_ioctl demo_os 4 (USBDEVFS_RESET None) 0 0 = (- 1, 19)"
    "os_ioctl demo_os 3 (USBDEVFS_RESET None) 0 0 = (0, 0)"
    by (simp_all add: demo_simps USBDEVFS_RESET_def)
  have "\<exists>w'. main None demo_os [''usbreset''] (start 0) = Some (1, w')"
    using exit_status [of "[]" None demo_os "''usbreset''" 0] by simp
  moreover have "\<exists>w'. main None demo_os [''usbreset'', ''/dev/bus/usb/999/999''] (start 0) = Some (1, w')"
    using exit_status [of _ None demo_os "''usbreset''" 0 "''/dev/bus/usb/999/999''" "- 1" 2] op
    by simp
  moreover have "\<exists>w'. main None demo_os [''usbreset'', ''/dev/bus/usb/001/003''] (start 0) = Some (1, w')"
    using exit_status [of _ None demo_os "''usbreset''" 0 "''/dev/bus/usb/001/003''" 4 0 "- 1" 19] op io
    by simp
  moreover have "\<exists>w'. main None demo_os [''usbreset'', ''/dev/bus/usb/001/002''] (start 0) = Some (0, w')"
    using exit_status [of _ None demo_os "''usbreset''" 0 "''/dev/bus/usb/001/002''" 3 0 0 0] op io
    by simp
  ultimately show ?thesis using op io by blast
qed

section \<open>The reset request\<close>

text \<open>
  The six included headers decide the request code. When none of them defines
  \<^verbatim>\<open>USBDEVFS_RESET\<close>, the built program is \<^verbatim>\<open>main\<close> with the macro undefined at the guard,
  whatever any other header of the platform defines.
\<close>

lemma usbreset_fallback:
  assumes "\<forall>header \<in> set included_headers. p header ''USBDEVFS_RESET'' = None"
  shows "usbreset p os argv w = main None os argv w"
proof -
  have "visible_macro p headers ''USBDEVFS_RESET'' = None"
    if "\<forall>header \<in> set headers. p header ''USBDEVFS_RESET'' = None" for headers
    using that by (induction headers) simp_all
  from this [OF assms] show ?thesis by (simp add: usbreset_def)
qed

text \<open>
  C7. The request is to carry the constant the platform supplies for \<^verbatim>\<open>USBDEVFS_RESET\<close>
  when the platform defines it, and 21780 only when it does not. The file guards its own
  definition with \<^verbatim>\<open>#ifndef\<close> but includes none of the headers that define the constant, so
  the guard always finds it undefined. On Linux for powerpc the platform defines the
  constant as 536892692 in \<^verbatim>\<open>linux/usbdevice_fs.h\<close>; the program built there still issues
  21780, the kernel answers ENOTTY, and the run ends with status 1. The rest of the claim
  holds on this run: one request, on the handle \<^verbatim>\<open>open\<close> returned, with 0 as its argument.
\<close>

theorem fallback_used_where_platform_defines_reset:
  "linux_powerpc ''linux/usbdevice_fs.h'' ''USBDEVFS_RESET'' = Some 536892692
   \<and> visible_macro linux_powerpc included_headers ''USBDEVFS_RESET'' = None
   \<and> usbreset linux_powerpc demo_os_powerpc [''usbreset'', ''/dev/bus/usb/001/002''] (start 0) =
       Some (1, \<lparr>kstate = 25,
                 trace = [Open ''/dev/bus/usb/001/002'' O_WRONLY 3,
                   Ioctl 3 21780 0 (- 1),
                   Close 3 0,
                   Write Stderr
                     (''Error resetting device /dev/bus/usb/001/002: Inappropriate ioctl for device''
                       @ [CHR 0x0A])]\<rparr>)"
proof -
  have p: "linux_powerpc ''linux/usbdevice_fs.h'' ''USBDEVFS_RESET'' = Some 536892692"
    by (simp add: linux_powerpc_def)
  have v: "visible_macro linux_powerpc included_headers ''USBDEVFS_RESET'' = None"
    by (simp add: linux_powerpc_def included_headers_def)
  have a: "os_open demo_os_powerpc ''/dev/bus/usb/001/002'' O_WRONLY 0 = (3, 0)"
    and b: "os_ioctl demo_os_powerpc 3 (USBDEVFS_RESET None) 0 0 = (- 1, 25)"
    and c: "os_close demo_os_powerpc 3 25 = (0, 25)"
    by (simp_all add: demo_os_powerpc_def demo_simps USBDEVFS_RESET_def)
  from main_opened_start [OF a _ b c, of "''usbreset''"] p v
  show ?thesis
    by (simp add: usbreset_def demo_os_powerpc_def demo_simps demo_strerror_def
        reset_error_msg_def USBDEVFS_RESET_def)
qed

section \<open>The access mode\<close>

text \<open>
  C8. With exactly one argument, the program opens exactly one path, the argument, and opens
  it with \<^verbatim>\<open>O_WRONLY\<close>: write-only, no read access.
\<close>

theorem open_write_only:
  "\<exists>status w'. main platform os [prog, path] (start k) = Some (status, w')
     \<and> opens (trace w') = [(path, O_WRONLY)]"
proof -
  obtain fd k1 where op: "os_open os path O_WRONLY k = (fd, k1)"
    by (cases "os_open os path O_WRONLY k")
  show ?thesis
  proof (cases "fd < 0")
    case True
    from main_open_failed_start [OF op True, of platform prog] show ?thesis by simp
  next
    case False
    then have nonneg: "0 \<le> fd" by simp
    obtain result k2 where io: "os_ioctl os fd (USBDEVFS_RESET platform) 0 k1 = (result, k2)"
      by (cases "os_ioctl os fd (USBDEVFS_RESET platform) 0 k1")
    obtain c k3 where cl: "os_close os fd k2 = (c, k3)"
      by (cases "os_close os fd k2")
    from main_opened_start [OF op nonneg io cl, of prog] show ?thesis by simp
  qed
qed

theorem open_write_only_witness:
  "(\<exists>status w'. main None demo_os [''usbreset'', ''/dev/bus/usb/001/002''] (start 0)
       = Some (status, w') \<and> opens (trace w') = [(''/dev/bus/usb/001/002'', O_WRONLY)])
   \<and> (\<exists>status w'. main None demo_os [''usbreset'', ''/dev/bus/usb/999/999''] (start 0)
       = Some (status, w') \<and> opens (trace w') = [(''/dev/bus/usb/999/999'', O_WRONLY)])"
  using open_write_only [of None demo_os "''usbreset''" "''/dev/bus/usb/001/002''" 0]
    open_write_only [of None demo_os "''usbreset''" "''/dev/bus/usb/999/999''" 0]
  by simp

section \<open>The order of close and report\<close>

text \<open>
  C9. On every run where \<^verbatim>\<open>open\<close> succeeds, the record of the run is, in this order: the
  \<^verbatim>\<open>open\<close>, the reset request, the \<^verbatim>\<open>close\<close> of the handle, and one print. The print, which
  is where the result of the reset is reported, comes after the \<^verbatim>\<open>close\<close>. When the reset
  failed, the description printed is \<^verbatim>\<open>strerror\<close> of \<^verbatim>\<open>errno\<close> as read in the state \<open>k3\<close>
  that \<^verbatim>\<open>close\<close> returned, not in the state \<open>k2\<close> that the reset request returned.
\<close>

theorem close_before_report:
  assumes "os_open os path O_WRONLY k = (fd, k1)" and "0 \<le> fd"
    and "os_ioctl os fd (USBDEVFS_RESET platform) 0 k1 = (result, k2)"
    and "os_close os fd k2 = (c, k3)"
  shows "\<exists>status st text. main platform os [prog, path] (start k) =
           Some (status, \<lparr>kstate = k3,
                          trace = [Open path O_WRONLY fd,
                            Ioctl fd (USBDEVFS_RESET platform) 0 result,
                            Close fd c,
                            Write st text]\<rparr>)
         \<and> (result < 0 \<longrightarrow> st = Stderr \<and> text =
               ''Error resetting device '' @ path @ '': ''
                 @ os_strerror os (os_errno os k3) @ [CHR 0x0A])"
  using main_opened_start [OF assms, of prog]
  by (cases "result < 0") (simp_all add: reset_error_msg_def)

theorem close_before_report_witness:
  "os_open demo_os ''/mnt/fuse/node'' O_WRONLY 0 = (5, 0)
   \<and> os_ioctl demo_os 5 (USBDEVFS_RESET None) 0 0 = (- 1, 25)
   \<and> os_close demo_os 5 25 = (- 1, 5)
   \<and> os_strerror demo_os 25 = ''Inappropriate ioctl for device''
   \<and> os_strerror demo_os 5 = ''Input/output error''
   \<and> (\<exists>status. main None demo_os [''usbreset'', ''/mnt/fuse/node''] (start 0) =
         Some (status, \<lparr>kstate = 5,
                        trace = [Open ''/mnt/fuse/node'' O_WRONLY 5,
                          Ioctl 5 21780 0 (- 1),
                          Close 5 (- 1),
                          Write Stderr (''Error resetting device /mnt/fuse/node: Input/output error''
                            @ [CHR 0x0A])]\<rparr>))"
proof -
  have a: "os_open demo_os ''/mnt/fuse/node'' O_WRONLY 0 = (5, 0)"
    and b: "os_ioctl demo_os 5 (USBDEVFS_RESET None) 0 0 = (- 1, 25)"
    and c: "os_close demo_os 5 25 = (- 1, 5)"
    and d: "os_strerror demo_os 25 = ''Inappropriate ioctl for device''"
      "os_strerror demo_os 5 = ''Input/output error''"
    by (simp_all add: demo_simps USBDEVFS_RESET_def demo_strerror_def)
  from close_before_report [OF a _ b c, of "''usbreset''"] a b c d
  show ?thesis by (auto simp add: USBDEVFS_RESET_def demo_simps)
qed

section \<open>The result of close\<close>

text \<open>
  C10. The exit status and the output are to depend on the number of arguments, the result of
  \<^verbatim>\<open>open\<close> and the result of the reset request alone, whatever \<^verbatim>\<open>close\<close> does. The two
  systems below agree on everything but \<^verbatim>\<open>close\<close>, which fails with EIO on the first and
  succeeds on the second. The reset request fails the same way on both, and the program
  prints a different error line on each: the text depends on what \<^verbatim>\<open>close\<close> left in
  \<^verbatim>\<open>errno\<close>.
\<close>

theorem report_depends_on_close:
  "os_open demo_os_good_close = os_open demo_os
   \<and> os_ioctl demo_os_good_close = os_ioctl demo_os
   \<and> os_errno demo_os_good_close = os_errno demo_os
   \<and> os_strerror demo_os_good_close = os_strerror demo_os
   \<and> main None demo_os [''usbreset'', ''/mnt/fuse/node''] (start 0) =
       Some (1, \<lparr>kstate = 5,
                 trace = [Open ''/mnt/fuse/node'' O_WRONLY 5,
                   Ioctl 5 21780 0 (- 1),
                   Close 5 (- 1),
                   Write Stderr (''Error resetting device /mnt/fuse/node: Input/output error''
                     @ [CHR 0x0A])]\<rparr>)
   \<and> main None demo_os_good_close [''usbreset'', ''/mnt/fuse/node''] (start 0) =
       Some (1, \<lparr>kstate = 25,
                 trace = [Open ''/mnt/fuse/node'' O_WRONLY 5,
                   Ioctl 5 21780 0 (- 1),
                   Close 5 0,
                   Write Stderr (''Error resetting device /mnt/fuse/node: Inappropriate ioctl for device''
                     @ [CHR 0x0A])]\<rparr>)"
proof -
  have a: "os_open demo_os ''/mnt/fuse/node'' O_WRONLY 0 = (5, 0)"
    and b: "os_ioctl demo_os 5 (USBDEVFS_RESET None) 0 0 = (- 1, 25)"
    and c: "os_close demo_os 5 25 = (- 1, 5)"
    by (simp_all add: demo_simps USBDEVFS_RESET_def)
  have a': "os_open demo_os_good_close ''/mnt/fuse/node'' O_WRONLY 0 = (5, 0)"
    and b': "os_ioctl demo_os_good_close 5 (USBDEVFS_RESET None) 0 0 = (- 1, 25)"
    and c': "os_close demo_os_good_close 5 25 = (0, 25)"
    by (simp_all add: demo_os_good_close_def demo_simps USBDEVFS_RESET_def)
  from main_opened_start [OF a _ b c, of "''usbreset''"]
    main_opened_start [OF a' _ b' c', of "''usbreset''"]
  show ?thesis
    by (simp add: demo_os_good_close_def demo_simps demo_strerror_def reset_error_msg_def
        USBDEVFS_RESET_def)
qed

text \<open>
  What does hold whatever \<^verbatim>\<open>close\<close> is replaced by: the exit status is the same, standard
  output is the same, the error stream receives the same number of messages, and on a run
  with status 0 the same messages (none). The value \<^verbatim>\<open>close\<close> returns is never looked at.
\<close>

theorem close_result_ignored:
  assumes "argv \<noteq> []"
  shows "\<exists>status w1 w2.
           main platform os argv (start k) = Some (status, w1)
           \<and> main platform (os\<lparr>os_close := cl\<rparr>) argv (start k) = Some (status, w2)
           \<and> writes Stdout (trace w1) = writes Stdout (trace w2)
           \<and> length (writes Stderr (trace w1)) = length (writes Stderr (trace w2))
           \<and> (status = 0 \<longrightarrow> writes Stderr (trace w1) = writes Stderr (trace w2))"
proof (cases "length argv = 2")
  case False
  from assms obtain prog args where argv: "argv = prog # args"
    by (cases argv) auto
  with False have n: "length args \<noteq> 1" by simp
  from main_usage [OF n, of platform os prog "start k"]
    main_usage [OF n, of platform "os\<lparr>os_close := cl\<rparr>" prog "start k"] argv
  show ?thesis by simp
next
  case True
  then obtain prog path where argv: "argv = [prog, path]"
    using argv_two by blast
  obtain fd k1 where op: "os_open os path O_WRONLY k = (fd, k1)"
    by (cases "os_open os path O_WRONLY k")
  then have op': "os_open (os\<lparr>os_close := cl\<rparr>) path O_WRONLY k = (fd, k1)" by simp
  show ?thesis
  proof (cases "fd < 0")
    case True
    from main_open_failed_start [OF op True, of platform prog]
      main_open_failed_start [OF op' True, of platform prog] argv
    show ?thesis by simp
  next
    case False
    then have nonneg: "0 \<le> fd" by simp
    obtain result k2 where io: "os_ioctl os fd (USBDEVFS_RESET platform) 0 k1 = (result, k2)"
      by (cases "os_ioctl os fd (USBDEVFS_RESET platform) 0 k1")
    then have io': "os_ioctl (os\<lparr>os_close := cl\<rparr>) fd (USBDEVFS_RESET platform) 0 k1 = (result, k2)"
      by simp
    obtain c k3 where c1: "os_close os fd k2 = (c, k3)"
      by (cases "os_close os fd k2")
    obtain c' k3' where c2: "os_close (os\<lparr>os_close := cl\<rparr>) fd k2 = (c', k3')"
      by (cases "os_close (os\<lparr>os_close := cl\<rparr>) fd k2")
    from main_opened_start [OF op nonneg io c1, of prog]
      main_opened_start [OF op' nonneg io' c2, of prog] argv
    show ?thesis by (cases "result < 0") simp_all
  qed
qed

theorem close_result_ignored_witness:
  "\<exists>w1 w2.
     main None demo_os [''usbreset'', ''/mnt/fuse/node''] (start 0) = Some (1, w1)
     \<and> main None demo_os_good_close [''usbreset'', ''/mnt/fuse/node''] (start 0) = Some (1, w2)
     \<and> writes Stdout (trace w1) = writes Stdout (trace w2)
     \<and> length (writes Stderr (trace w1)) = length (writes Stderr (trace w2))"
proof -
  have a: "os_open demo_os ''/mnt/fuse/node'' O_WRONLY 0 = (5, 0)"
    and b: "os_ioctl demo_os 5 (USBDEVFS_RESET None) 0 0 = (- 1, 25)"
    and c: "os_close demo_os 5 25 = (- 1, 5)"
    by (simp_all add: demo_simps USBDEVFS_RESET_def)
  have st: "main None demo_os [''usbreset'', ''/mnt/fuse/node''] (start 0) = Some (s, w) \<Longrightarrow> s = 1"
    for s w
    using main_opened_start [OF a _ b c, of "''usbreset''"] by simp
  from close_result_ignored [of "[''usbreset'', ''/mnt/fuse/node'']" None demo_os 0 "\<lambda>fd e. (0, e)"]
  obtain s w1 w2 where r:
    "main None demo_os [''usbreset'', ''/mnt/fuse/node''] (start 0) = Some (s, w1)"
    "main None demo_os_good_close [''usbreset'', ''/mnt/fuse/node''] (start 0) = Some (s, w2)"
    "writes Stdout (trace w1) = writes Stdout (trace w2)"
    "length (writes Stderr (trace w1)) = length (writes Stderr (trace w2))"
    by (auto simp add: demo_os_good_close_def)
  from st [OF r(1)] r show ?thesis by blast
qed

end
